theory Spec2Isabelle
  imports Main "HOL-Library.Log_Nat" "HOL-Library.Signed_Division" "HOL-Library.Sublist"
    "HOL-Library.Code_Target_Nat"
begin

section \<open>The swap orchestration engine of higherdust\<close>

text \<open>
  The development embeds the swap pipeline of the \<^verbatim>\<open>SwapDustInterface\<close> component
  (\<^verbatim>\<open>src/unnamed/part_000\<close>): \<^verbatim>\<open>verifyNetworkAndContract\<close>, \<^verbatim>\<open>approveToken\<close>,
  \<^verbatim>\<open>checkAllowance\<close> and \<^verbatim>\<open>handleSwap\<close> with its local helpers.
  The functions of the JavaScript runtime and of the viem library that the pipeline calls
  on balances (\<^verbatim>\<open>parseFloat\<close>, \<^verbatim>\<open>Number\<close>, \<^verbatim>\<open>Math.floor\<close>, \<^verbatim>\<open>BigInt\<close>, \<^verbatim>\<open>parseUnits\<close>)
  come first; every on-chain read and every transaction is an answer of an environment
  that is recorded in a trace.
\<close>

subsection \<open>JavaScript numbers\<close>

text \<open>
  A \<^verbatim>\<open>number\<close> is an IEEE 754 binary64 value. A finite one is kept as the rational it
  denotes; the two zeros are not told apart (no operation of the pipeline does).
  \<open>roundPos\<close> is round-to-nearest, ties-to-even, to a 53 bit significand with the
  exponent range of binary64 (subnormals below \<open>2 ^ - 1022\<close>, infinity from
  \<open>2 ^ 1024\<close> on).
\<close>

datatype number = NaN | PosInfinity | NegInfinity | Finite rat

definition pow2 :: "int \<Rightarrow> rat" where
  "pow2 k = (if 0 \<le> k then 2 ^ nat k else 1 / 2 ^ nat (- k))"

definition pow10 :: "int \<Rightarrow> rat" where
  "pow10 k = (if 0 \<le> k then 10 ^ nat k else 1 / 10 ^ nat (- k))"

definition floorLog2 :: "rat \<Rightarrow> int" where
  "floorLog2 q = (if 1 \<le> q then bitlen \<lfloor>q\<rfloor> - 1 else - bitlen (\<lceil>1 / q\<rceil> - 1))"

definition roundHalfEven :: "rat \<Rightarrow> int" where
  "roundHalfEven x =
     (let f = \<lfloor>x\<rfloor>; d = x - of_int f
      in if d < 1 / 2 then f else if 1 / 2 < d then f + 1 else if even f then f else f + 1)"

definition roundPos :: "rat \<Rightarrow> number" where
  "roundPos q =
     (let e = max (floorLog2 q - 52) (- 1074);
          m = roundHalfEven (q / pow2 e)
      in if 1025 \<le> bitlen m + e then PosInfinity else Finite (of_int m * pow2 e))"

fun negate :: "number \<Rightarrow> number" where
  "negate NaN = NaN"
| "negate PosInfinity = NegInfinity"
| "negate NegInfinity = PosInfinity"
| "negate (Finite v) = Finite (- v)"

definition toDouble :: "rat \<Rightarrow> number" where
  "toDouble q =
     (if q = 0 then Finite 0 else if 0 < q then roundPos q else negate (roundPos (- q)))"

text \<open>\<^verbatim>\<open>Number(b)\<close> for a bigint \<open>b\<close>.\<close>

definition bigintToNumber :: "int \<Rightarrow> number" where
  "bigintToNumber b = toDouble (of_int b)"

text \<open>\<^verbatim>\<open>x / d\<close> for a finite positive divisor \<open>d\<close> (the pipeline divides by 10000 only).\<close>

fun divideBy :: "number \<Rightarrow> rat \<Rightarrow> number" where
  "divideBy (Finite v) d = toDouble (v / d)"
| "divideBy x d = x"

fun mathFloor :: "number \<Rightarrow> number" where
  "mathFloor (Finite v) = Finite (of_int \<lfloor>v\<rfloor>)"
| "mathFloor x = x"

text \<open>\<^verbatim>\<open>Math.round\<close>: the nearest integer, a tie going up.\<close>

fun mathRound :: "number \<Rightarrow> number" where
  "mathRound (Finite v) = Finite (of_int \<lfloor>v + 1 / 2\<rfloor>)"
| "mathRound x = x"

text \<open>\<^verbatim>\<open>isNaN(x)\<close>, \<^verbatim>\<open>x <= 0\<close>, \<^verbatim>\<open>x === 0\<close> and \<^verbatim>\<open>x > 9\<close>; a comparison with NaN is false.\<close>

fun isNaN :: "number \<Rightarrow> bool" where
  "isNaN NaN = True"
| "isNaN x = False"

fun leZero :: "number \<Rightarrow> bool" where
  "leZero (Finite v) = (v \<le> 0)"
| "leZero NegInfinity = True"
| "leZero x = False"

fun isZero :: "number \<Rightarrow> bool" where
  "isZero (Finite v) = (v = 0)"
| "isZero x = False"

fun greaterThan :: "number \<Rightarrow> rat \<Rightarrow> bool" where
  "greaterThan (Finite v) c = (c < v)"
| "greaterThan PosInfinity c = True"
| "greaterThan x c = False"

subsection \<open>Errors\<close>

text \<open>
  Every \<^verbatim>\<open>throw\<close> of the source is a constructor; an error that wraps the message of
  another one (\<^verbatim>\<open>`Failed to approve ${symbol}: ${e.message}`\<close>) keeps the inner error.
  \<open>ExternalError\<close> is an exception raised by the wallet or the RPC node, with its message.
\<close>

datatype error =
    InvalidDecimalNumberError string
  | SyntaxError
  | RangeError
  | MissingContractOrWallet
  | TokenNotFound string
  | InvalidBalance string string
  | TypeError
  | LengthMismatch nat nat nat
  | AddressMismatch nat
  | VerifyMismatch nat
  | NoBalanceFound string
  | WalletNotConnected
  | ExternalError string
  | ApprovalTransactionFailed string
  | FailedToApprove string error
  | CriticalAmountExceedsBalance string
  | PublicClientNotAvailable
  | SwapAmountTooSmall string
  | TotalOutputZero
  | FailedToValidateQuote string error
  | FailedToValidateBulkQuote error
  | CannotSwapHigherToHigher
  | GasEstimationFailed string
  | SwapFailed string

text \<open>\<^verbatim>\<open>BigInt(x)\<close> for a number: a RangeError unless \<open>x\<close> is an integer.\<close>

fun numberToBigint :: "number \<Rightarrow> error + int" where
  "numberToBigint (Finite v) = (if of_int \<lfloor>v\<rfloor> = v then Inr \<lfloor>v\<rfloor> else Inl RangeError)"
| "numberToBigint x = Inl RangeError"

text \<open>
  Division of bigints truncates towards zero: \<open>a sdiv b\<close>.
\<close>

subsection \<open>Strings\<close>

text \<open>
  A string is a list of bytes; addresses and balances are ASCII. \<open>toLowerCase\<close>
  lowers the ASCII letters, and \<open>isWhiteSpace\<close> knows the ASCII white space and line
  terminators.
\<close>

definition isDigit :: "char \<Rightarrow> bool" where
  "isDigit c = (c \<in> set ''0123456789'')"

definition digitVal :: "char \<Rightarrow> int" where
  "digitVal c = of_char c - 48"

definition digitsToInt :: "string \<Rightarrow> int" where
  "digitsToInt ds = foldl (\<lambda>a c. 10 * a + digitVal c) 0 ds"

function intToString :: "int \<Rightarrow> string" where
  "intToString n =
     (if n < 10 then [''0123456789'' ! nat n]
      else intToString (n div 10) @ [''0123456789'' ! nat (n mod 10)])"
  by pat_completeness auto
termination
  by (relation "measure nat") auto

definition isWhiteSpace :: "char \<Rightarrow> bool" where
  "isWhiteSpace c = (c \<in> set [CHR 0x09, CHR 0x0A, CHR 0x0B, CHR 0x0C, CHR 0x0D, CHR '' ''])"

definition lowerChar :: "char \<Rightarrow> char" where
  "lowerChar c =
     (if 65 \<le> (of_char c :: nat) \<and> (of_char c :: nat) \<le> 90 then char_of (of_char c + 32 :: nat)
      else c)"

definition toLowerCase :: "string \<Rightarrow> string" where
  "toLowerCase s = map lowerChar s"

text \<open>\<^verbatim>\<open>s.includes(p)\<close>.\<close>

fun includesSub :: "string \<Rightarrow> string \<Rightarrow> bool" where
  "includesSub [] p = (p = [])"
| "includesSub (c # cs) p = (prefix p (c # cs) \<or> includesSub cs p)"

text \<open>\<^verbatim>\<open>s.padStart(n, '0')\<close> and \<^verbatim>\<open>s.padEnd(n, '0')\<close>.\<close>

definition padStart :: "nat \<Rightarrow> string \<Rightarrow> string" where
  "padStart n s = replicate (n - length s) CHR ''0'' @ s"

definition padEnd :: "nat \<Rightarrow> string \<Rightarrow> string" where
  "padEnd n s = s @ replicate (n - length s) CHR ''0''"

subsection \<open>parseFloat\<close>

text \<open>
  \<^verbatim>\<open>parseFloat\<close> skips leading white space and reads the longest prefix that is a
  decimal literal: a sign, then \<^verbatim>\<open>Infinity\<close> or digits with an optional fraction and an
  optional exponent; with no such prefix the result is NaN.
\<close>

definition exponentPart :: "string \<Rightarrow> int" where
  "exponentPart r =
     (case r of
        [] \<Rightarrow> 0
      | c # r1 \<Rightarrow>
          if c = CHR ''e'' \<or> c = CHR ''E'' then
            (let neg = (r1 \<noteq> [] \<and> hd r1 = CHR ''-'');
                 r2 = (if r1 \<noteq> [] \<and> (hd r1 = CHR ''-'' \<or> hd r1 = CHR ''+'') then tl r1 else r1);
                 ds = takeWhile isDigit r2
             in if ds = [] then 0 else if neg then - digitsToInt ds else digitsToInt ds)
          else 0)"

definition parseFloat :: "string \<Rightarrow> number" where
  "parseFloat s =
     (let t = dropWhile isWhiteSpace s;
          neg = (t \<noteq> [] \<and> hd t = CHR ''-'');
          u = (if t \<noteq> [] \<and> (hd t = CHR ''-'' \<or> hd t = CHR ''+'') then tl t else t)
      in if prefix ''Infinity'' u then (if neg then NegInfinity else PosInfinity)
         else
           (let ip = takeWhile isDigit u;
                r1 = dropWhile isDigit u;
                hasDot = (r1 \<noteq> [] \<and> hd r1 = CHR ''.'');
                fp = (if hasDot then takeWhile isDigit (tl r1) else []);
                r2 = (if hasDot then dropWhile isDigit (tl r1) else r1)
            in if ip = [] \<and> fp = [] then NaN
               else
                 (let q = of_int (digitsToInt (ip @ fp))
                            * pow10 (exponentPart r2 - int (length fp))
                  in if neg then negate (toDouble q) else toDouble q)))"

subsection \<open>parseUnits\<close>

text \<open>
  \<^verbatim>\<open>parseUnits(value, decimals)\<close> of viem (version 2) scales a decimal string to an
  integer: the string must match \<^verbatim>\<open>/^(-?)([0-9]*)\.?([0-9]*)$/\<close>; the fraction loses its
  trailing zeros, is rounded at \<open>decimals\<close> places when it is longer (through
  \<^verbatim>\<open>Math.round(Number(...))\<close>) and padded with zeros when it is shorter.
\<close>

definition matchesDecimal :: "string \<Rightarrow> bool" where
  "matchesDecimal s =
     (let s1 = (if s \<noteq> [] \<and> hd s = CHR ''-'' then tl s else s);
          s2 = dropWhile isDigit s1;
          s3 = (if s2 \<noteq> [] \<and> hd s2 = CHR ''.'' then tl s2 else s2)
      in dropWhile isDigit s3 = [])"

text \<open>\<^verbatim>\<open>Number(`${ip}.${fp}`)\<close> for two digit strings.\<close>

definition numberOfDecimal :: "string \<Rightarrow> string \<Rightarrow> number" where
  "numberOfDecimal ip fp =
     (if ip = [] \<and> fp = [] then NaN
      else toDouble (of_int (digitsToInt (ip @ fp)) * pow10 (- int (length fp))))"

text \<open>\<^verbatim>\<open>`${x}`\<close> for a number that \<^verbatim>\<open>Math.round\<close> returned.\<close>

fun numberToString :: "number \<Rightarrow> string" where
  "numberToString (Finite v) = intToString \<lfloor>v\<rfloor>"
| "numberToString NaN = ''NaN''"
| "numberToString PosInfinity = ''Infinity''"
| "numberToString NegInfinity = ''-Infinity''"

text \<open>
  \<^verbatim>\<open>BigInt(`${negative ? '-' : ''}${ds}`)\<close>: a SyntaxError for a lone sign and for a
  character that is not a digit; the empty string is zero.
\<close>

definition stringToBigint :: "bool \<Rightarrow> string \<Rightarrow> error + int" where
  "stringToBigint negative ds =
     (if (negative \<and> ds = []) \<or> \<not> list_all isDigit ds then Inl SyntaxError
      else Inr (if negative then - digitsToInt ds else digitsToInt ds))"

definition parseUnits :: "string \<Rightarrow> nat \<Rightarrow> error + int" where
  "parseUnits val decimals =
     (if \<not> matchesDecimal val then Inl (InvalidDecimalNumberError val)
      else
        (let integer0 = takeWhile (\<lambda>c. c \<noteq> CHR ''.'') val;
             fraction0 = (if CHR ''.'' \<in> set val then tl (dropWhile (\<lambda>c. c \<noteq> CHR ''.'') val)
                          else ''0'');
             negative = (integer0 \<noteq> [] \<and> hd integer0 = CHR ''-'');
             integer1 = (if negative then tl integer0 else integer0);
             fraction1 = rev (dropWhile (\<lambda>c. c = CHR ''0'') (rev fraction0))
         in if decimals = 0 then
              stringToBigint negative
                (if mathRound (numberOfDecimal [] fraction1) = Finite 1
                 then intToString (digitsToInt integer1 + 1) else integer1)
            else if decimals < length fraction1 then
              (let left = take (decimals - 1) fraction1;
                   unit = take 1 (drop (decimals - 1) fraction1);
                   right = drop decimals fraction1;
                   rounded = mathRound (numberOfDecimal unit right);
                   fraction2 = (if greaterThan rounded 9
                                then padStart (length left + 1) (intToString (digitsToInt left + 1) @ ''0'')
                                else left @ numberToString rounded);
                   integer2 = (if decimals < length fraction2
                               then intToString (digitsToInt integer1 + 1) else integer1);
                   fraction3 = (if decimals < length fraction2 then tl fraction2 else fraction2)
               in stringToBigint negative (integer2 @ take decimals fraction3))
            else stringToBigint negative (integer1 @ padEnd decimals fraction1)))"

subsection \<open>Tokens, configuration and component state\<close>

text \<open>
  A token record of the detection hook, with the fields the pipeline computes with
  (\<^verbatim>\<open>valueUSD\<close> and \<^verbatim>\<open>source\<close> are only displayed and logged). An empty string stands for
  a missing (falsy) value. \<open>contracts\<close> is \<^verbatim>\<open>CONTRACT_ADDRESSES\<close> of \<^verbatim>\<open>@/lib/contracts\<close>,
  taken as a parameter.
\<close>

record token =
  address :: string
  symbol :: string
  decimals :: nat
  balanceFormatted :: string

record contracts =
  SPLIT_ROUTER :: string
  HIGHER_TOKEN :: string

record app =
  isConnected :: bool
  account :: string
  dustTokens :: "token list"
  selectedTokens :: "string list"

text \<open>\<^verbatim>\<open>dustTokens.filter((token) => selectedTokens.includes(token.address))\<close>\<close>

definition selectedTokensData :: "app \<Rightarrow> token list" where
  "selectedTokensData a = filter (\<lambda>t. address t \<in> set (selectedTokens a)) (dustTokens a)"

text \<open>\<^verbatim>\<open>token.balanceFormatted || '0'\<close>\<close>

definition balanceOrZero :: "token \<Rightarrow> string" where
  "balanceOrZero t = (if balanceFormatted t = [] then ''0'' else balanceFormatted t)"

subsection \<open>The environment and the trace\<close>

text \<open>
  Every call that leaves the component (a read of the chain through the public client, a
  transaction through the wallet) is an event: the call with its arguments and its
  answer, a returned value or a thrown exception with its message. The environment
  chooses each answer from the events so far, so an allowance may change after an
  approval, or not. Amounts returned by the chain are \<^verbatim>\<open>uint256\<close> values, hence naturals.
  \<open>hasPublicClient\<close> tells whether \<^verbatim>\<open>usePublicClient()\<close> returned a client.
\<close>

datatype 'a reply = Returned 'a | Threw string

datatype event =
    GetChainId "int reply"
  | GetCode string "string reply"
  | AllowanceRead string "nat reply"
  | ApproveSent string int "unit reply"
  | SwapQuoteRead string int "nat reply"
  | BulkQuoteRead "string list" "int list" "(nat \<times> nat list) reply"
  | GasEstimate "string list" "int list" int "nat reply"
  | BulkSwapSent "string list" "int list" int "unit reply"

record env =
  hasPublicClient :: bool
  chainIdReply :: "event list \<Rightarrow> int reply"
  codeReply :: "event list \<Rightarrow> string \<Rightarrow> string reply"
  allowanceReply :: "event list \<Rightarrow> string \<Rightarrow> nat reply"
  approveReply :: "event list \<Rightarrow> string \<Rightarrow> int \<Rightarrow> unit reply"
  quoteReply :: "event list \<Rightarrow> string \<Rightarrow> int \<Rightarrow> nat reply"
  bulkQuoteReply :: "event list \<Rightarrow> string list \<Rightarrow> int list \<Rightarrow> (nat \<times> nat list) reply"
  gasReply :: "event list \<Rightarrow> string list \<Rightarrow> int list \<Rightarrow> int \<Rightarrow> nat reply"
  swapReply :: "event list \<Rightarrow> string list \<Rightarrow> int list \<Rightarrow> int \<Rightarrow> unit reply"

text \<open>
  An action takes the events so far and returns its result, a value or the error it
  throws, with the events it adds. \<open>andThen\<close> is sequencing (\<^verbatim>\<open>await\<close>, then the rest),
  \<open>rethrow\<close> is \<^verbatim>\<open>try { ... } catch (e) { throw new Error(w(e)) }\<close>.
\<close>

type_synonym 'a action = "event list \<Rightarrow> (error + 'a) \<times> event list"

definition succeed :: "'a \<Rightarrow> 'a action" where
  "succeed x h = (Inr x, [])"

definition throw :: "error \<Rightarrow> 'a action" where
  "throw e h = (Inl e, [])"

definition fromResult :: "error + 'a \<Rightarrow> 'a action" where
  "fromResult r h = (r, [])"

definition andThen :: "'a action \<Rightarrow> ('a \<Rightarrow> 'b action) \<Rightarrow> 'b action" where
  "andThen m f h =
     (case m h of
        (Inl e, ev) \<Rightarrow> (Inl e, ev)
      | (Inr x, ev) \<Rightarrow> (case f x (h @ ev) of (r, ev') \<Rightarrow> (r, ev @ ev')))"

definition rethrow :: "(error \<Rightarrow> error) \<Rightarrow> 'a action \<Rightarrow> 'a action" where
  "rethrow w m h = (case m h of (Inl e, ev) \<Rightarrow> (Inl (w e), ev) | (Inr x, ev) \<Rightarrow> (Inr x, ev))"

definition ask :: "(event list \<Rightarrow> 'r reply) \<Rightarrow> ('r reply \<Rightarrow> event) \<Rightarrow> 'r reply action" where
  "ask q mk h = (Inr (q h), [mk (q h)])"

subsection \<open>decodeErrorSignature\<close>

definition decodeErrorSignature :: "string \<Rightarrow> string" where
  "decodeErrorSignature errorMessage =
     (if includesSub errorMessage ''0xfb8f41b2''
        then ''ERC20: Insufficient allowance - please approve tokens first''
      else if includesSub errorMessage ''0x4e487b71'' then ''Arithmetic overflow/underflow''
      else if includesSub errorMessage ''0x4d5c4d5c'' then ''Invalid token address''
      else if includesSub errorMessage ''0x8c5be1e5'' then ''ERC20: insufficient allowance''
      else if includesSub errorMessage ''0xa9059cbb''
        then ''ERC20: transfer amount exceeds balance''
      else ''Unknown contract error'')"

subsection \<open>verifyNetworkAndContract\<close>




subsection \<open>checkAllowance and approveToken\<close>

text \<open>
  \<^verbatim>\<open>checkAllowance\<close> returns zero when the read fails or returns nothing.
\<close>

definition checkAllowance :: "env \<Rightarrow> string \<Rightarrow> nat action" where
  "checkAllowance e tokenAddress =
     (if \<not> hasPublicClient e then succeed 0
      else andThen (ask (\<lambda>h. allowanceReply e h tokenAddress) (AllowanceRead tokenAddress))
             (\<lambda>r. succeed (case r of Returned allowance \<Rightarrow> allowance | Threw m \<Rightarrow> 0)))"

text \<open>
  \<^verbatim>\<open>approveToken(tokenAddress, amount)\<close>: the token is looked up in \<^verbatim>\<open>dustTokens\<close>, the
  argument \<open>amount\<close> is logged and then overwritten by the buffered balance
  (\<^verbatim>\<open>amount = bufferAmount\<close>), which is what \<^verbatim>\<open>approve\<close> is sent with. After the
  transaction the allowance is read once more for the log, whatever it answers. The
  \<^verbatim>\<open>catch\<close> of the function shows a toast and throws the same error again.
\<close>

definition tokenSymbol :: "token option \<Rightarrow> string" where
  "tokenSymbol t =
     (case t of None \<Rightarrow> ''Unknown Token''
      | Some tk \<Rightarrow> if symbol tk = [] then ''Unknown Token'' else symbol tk)"

definition bufferAmountOf :: "int \<Rightarrow> int" where
  "bufferAmountOf x = (x * 1001) sdiv 1000"

definition approveToken :: "env \<Rightarrow> app \<Rightarrow> string \<Rightarrow> int \<Rightarrow> unit action" where
  "approveToken e a tokenAddress amount =
     (let token = find (\<lambda>t. address t = tokenAddress) (dustTokens a)
      in case token of
           None \<Rightarrow> throw (NoBalanceFound (tokenSymbol token))
         | Some tk \<Rightarrow>
             if balanceFormatted tk = [] \<or> isZero (parseFloat (balanceFormatted tk))
             then throw (NoBalanceFound (tokenSymbol token))
             else
               andThen (fromResult (parseUnits (balanceOrZero tk) (decimals tk)))
                 (\<lambda>balanceWei.
                    let bufferAmount = bufferAmountOf balanceWei;
                        amount = bufferAmount
                    in if account a = [] then throw WalletNotConnected
                       else
                         andThen (ask (\<lambda>h. approveReply e h tokenAddress amount)
                                    (ApproveSent tokenAddress amount))
                           (\<lambda>r. case r of
                                   Threw m \<Rightarrow> throw (ApprovalTransactionFailed m)
                                 | Returned u \<Rightarrow>
                                     if hasPublicClient e
                                     then andThen (ask (\<lambda>h. allowanceReply e h tokenAddress)
                                                     (AllowanceRead tokenAddress))
                                            (\<lambda>newAllowance. succeed ())
                                     else succeed ())))"

subsection \<open>The plan: buildConsistentArrays and its checks\<close>

text \<open>
  \<^verbatim>\<open>BigInt(Math.floor(Number(balanceWei) / 10000)) || BigInt(100000)\<close>: the quotient is
  computed in double precision, and \<^verbatim>\<open>||\<close> takes 100000 when it is \<^verbatim>\<open>0n\<close>.
\<close>

definition dynamicBuffer :: "int \<Rightarrow> error + int" where
  "dynamicBuffer balanceWei =
     (case numberToBigint (mathFloor (divideBy (bigintToNumber balanceWei) 10000)) of
        Inl err \<Rightarrow> Inl err
      | Inr r \<Rightarrow> Inr (if r = 0 then 100000 else r))"

text \<open>The body of the \<^verbatim>\<open>forEach\<close> callback: the token and the safe amount of one address.\<close>

definition buildEntry :: "token list \<Rightarrow> string \<Rightarrow> error + (token \<times> int)" where
  "buildEntry tokenList addr =
     (case find (\<lambda>t. address t = addr) tokenList of
        None \<Rightarrow> Inl (TokenNotFound addr)
      | Some tk \<Rightarrow>
          (let balanceValue = parseFloat (balanceOrZero tk)
           in if isNaN balanceValue \<or> leZero balanceValue
              then Inl (InvalidBalance (symbol tk) (balanceFormatted tk))
              else
                (case parseUnits (balanceOrZero tk) (decimals tk) of
                   Inl err \<Rightarrow> Inl err
                 | Inr balanceWei \<Rightarrow>
                     (case dynamicBuffer balanceWei of
                        Inl err \<Rightarrow> Inl err
                      | Inr safetyReduction \<Rightarrow> Inr (tk, balanceWei - safetyReduction)))))"

text \<open>
  The three arrays are filled at the same index in the order of the selection; the first
  callback that throws ends the construction.
\<close>

fun buildConsistentArrays ::
  "token list \<Rightarrow> string list \<Rightarrow> error + (token list \<times> string list \<times> int list)" where
  "buildConsistentArrays tokenList [] = Inr ([], [], [])"
| "buildConsistentArrays tokenList (addr # rest) =
     (case buildEntry tokenList addr of
        Inl err \<Rightarrow> Inl err
      | Inr (tk, safeAmount) \<Rightarrow>
          (case buildConsistentArrays tokenList rest of
             Inl err \<Rightarrow> Inl err
           | Inr (tokenData, addresses, amounts) \<Rightarrow>
               Inr (tk # tokenData, addr # addresses, safeAmount # amounts)))"

text \<open>
  The loop of \<^verbatim>\<open>validateArrayConsistency\<close> and \<^verbatim>\<open>verifyArrayConsistency\<close> over
  \<^verbatim>\<open>tokens.length\<close> indices: the first index whose addresses differ after
  \<^verbatim>\<open>toLowerCase\<close> throws; reading past the end of \<^verbatim>\<open>addresses\<close> is a TypeError.
\<close>

fun firstMisaligned :: "(nat \<Rightarrow> error) \<Rightarrow> nat \<Rightarrow> token list \<Rightarrow> string list \<Rightarrow> error option" where
  "firstMisaligned mk i [] addrs = None"
| "firstMisaligned mk i (tk # tks) [] = Some TypeError"
| "firstMisaligned mk i (tk # tks) (addr # addrs) =
     (if toLowerCase (address tk) \<noteq> toLowerCase addr then Some (mk i)
      else firstMisaligned mk (Suc i) tks addrs)"

definition validateArrayConsistency :: "token list \<Rightarrow> string list \<Rightarrow> int list \<Rightarrow> error + unit" where
  "validateArrayConsistency tokens addresses amounts =
     (if length tokens \<noteq> length addresses \<or> length addresses \<noteq> length amounts
      then Inl (LengthMismatch (length tokens) (length addresses) (length amounts))
      else (case firstMisaligned AddressMismatch 0 tokens addresses of
              Some err \<Rightarrow> Inl err
            | None \<Rightarrow> Inr ()))"

definition verifyArrayConsistency :: "token list \<Rightarrow> string list \<Rightarrow> int list \<Rightarrow> error + unit" where
  "verifyArrayConsistency tokens addresses amounts =
     (case firstMisaligned VerifyMismatch 0 tokens addresses of
        Some err \<Rightarrow> Inl err
      | None \<Rightarrow> Inr ())"

subsection \<open>handleSwap\<close>

text \<open>
  Step 2, \<^verbatim>\<open>approvalPromises\<close>: one asynchronous callback per token, which reads the
  allowance and calls \<^verbatim>\<open>approveToken\<close> with the required amount when the allowance is
  lower. \<^verbatim>\<open>Promise.all\<close> leaves the interleaving of the callbacks open; the callbacks are
  taken here to complete one after another in index order, and the step ends at the first
  callback that throws. With a single token there is no other interleaving.
\<close>

fun approvalPromises :: "env \<Rightarrow> app \<Rightarrow> (token \<times> int) list \<Rightarrow> unit action" where
  "approvalPromises e a [] = succeed ()"
| "approvalPromises e a ((tk, requiredAmount) # rest) =
     andThen (checkAllowance e (address tk))
       (\<lambda>currentAllowance.
          andThen (if int currentAllowance < requiredAmount
                   then rethrow (FailedToApprove (symbol tk))
                          (approveToken e a (address tk) requiredAmount)
                   else succeed ())
            (\<lambda>u. approvalPromises e a rest))"

text \<open>The loop that logs the current allowance of every token.\<close>

fun logAllowances :: "env \<Rightarrow> token list \<Rightarrow> unit action" where
  "logAllowances e [] = succeed ()"
| "logAllowances e (tk # rest) =
     andThen (checkAllowance e (address tk)) (\<lambda>currentAllowance. logAllowances e rest)"

text \<open>
  The second pass: the allowances are read again, the tokens below their amount are
  collected in \<^verbatim>\<open>tokensNeedingApproval\<close>, and these are approved one by one, each with
  \<^verbatim>\<open>approveToken(token.address, amount * 1001 / 1000)\<close>.
\<close>

fun collectNeedingApproval :: "env \<Rightarrow> (token \<times> int) list \<Rightarrow> (token \<times> int) list action" where
  "collectNeedingApproval e [] = succeed []"
| "collectNeedingApproval e ((tk, amount) # rest) =
     andThen (checkAllowance e (address tk))
       (\<lambda>allowance.
          andThen (collectNeedingApproval e rest)
            (\<lambda>needing. succeed (if int allowance < amount then (tk, amount) # needing
                                  else needing)))"

fun approveSequentially :: "env \<Rightarrow> app \<Rightarrow> (token \<times> int) list \<Rightarrow> unit action" where
  "approveSequentially e a [] = succeed ()"
| "approveSequentially e a ((tk, amount) # rest) =
     andThen (rethrow (FailedToApprove (symbol tk))
                (approveToken e a (address tk) (bufferAmountOf amount)))
       (\<lambda>u. approveSequentially e a rest)"

text \<open>
  The balance check before the swap: the amount of a token is lowered to
  \<^verbatim>\<open>balanceWei - dynamicBuffer\<close> when it is larger, and an amount above the balance is a
  critical error. The result is the array \<^verbatim>\<open>safeTokenAmounts\<close> after the loop.
\<close>

fun checkBalances :: "(token \<times> int) list \<Rightarrow> error + int list" where
  "checkBalances [] = Inr []"
| "checkBalances ((tk, amount) # rest) =
     (case parseUnits (balanceOrZero tk) (decimals tk) of
        Inl err \<Rightarrow> Inl err
      | Inr balanceWei \<Rightarrow>
          (case dynamicBuffer balanceWei of
             Inl err \<Rightarrow> Inl err
           | Inr buffer \<Rightarrow>
               (let maxSwappableAmount = balanceWei - buffer;
                    adjusted = (if maxSwappableAmount < amount then maxSwappableAmount else amount)
                in if balanceWei < amount then Inl (CriticalAmountExceedsBalance (symbol tk))
                   else (case checkBalances rest of
                           Inl err \<Rightarrow> Inl err
                         | Inr amounts \<Rightarrow> Inr (adjusted # amounts)))))"

text \<open>
  The quotes: \<^verbatim>\<open>getSwapQuote\<close> for every token, a zero quote throwing inside the
  \<^verbatim>\<open>try\<close> whose \<^verbatim>\<open>catch\<close> wraps the message, then \<^verbatim>\<open>getBulkSwapQuote\<close> for the
  whole plan, whose first component is the total.
\<close>

definition quoteOne :: "env \<Rightarrow> token \<Rightarrow> int \<Rightarrow> nat action" where
  "quoteOne e tk amount =
     rethrow (FailedToValidateQuote (symbol tk))
       (if \<not> hasPublicClient e then throw PublicClientNotAvailable
        else andThen (ask (\<lambda>h. quoteReply e h (address tk) amount)
                        (SwapQuoteRead (address tk) amount))
               (\<lambda>r. case r of
                       Threw m \<Rightarrow> throw (ExternalError m)
                     | Returned quote \<Rightarrow>
                         if quote = 0 then throw (SwapAmountTooSmall (symbol tk))
                         else succeed quote))"

fun validateQuotes :: "env \<Rightarrow> (token \<times> int) list \<Rightarrow> nat list action" where
  "validateQuotes e [] = succeed []"
| "validateQuotes e ((tk, amount) # rest) =
     andThen (quoteOne e tk amount)
       (\<lambda>quote. andThen (validateQuotes e rest)
                   (\<lambda>individualQuotes. succeed (quote # individualQuotes)))"

definition bulkQuote :: "env \<Rightarrow> string list \<Rightarrow> int list \<Rightarrow> nat action" where
  "bulkQuote e addresses amounts =
     rethrow FailedToValidateBulkQuote
       (if \<not> hasPublicClient e then throw PublicClientNotAvailable
        else andThen (ask (\<lambda>h. bulkQuoteReply e h addresses amounts)
                        (BulkQuoteRead addresses amounts))
               (\<lambda>r. case r of
                       Threw m \<Rightarrow> throw (ExternalError m)
                     | Returned bulkQuoteResult \<Rightarrow>
                         (let totalQuote = fst bulkQuoteResult
                          in if totalQuote = 0 then throw TotalOutputZero
                             else succeed totalQuote)))"

text \<open>\<^verbatim>\<open>(totalQuote * BigInt(90)) / BigInt(100)\<close>\<close>

definition minReceiveOf :: "nat \<Rightarrow> int" where
  "minReceiveOf totalQuote = (int totalQuote * 90) sdiv 100"

text \<open>
  The gas estimate goes through \<^verbatim>\<open>publicClient?.estimateContractGas\<close>, which does nothing
  without a client; the swap is sent through the wallet.
\<close>

definition estimateGas :: "env \<Rightarrow> string list \<Rightarrow> int list \<Rightarrow> int \<Rightarrow> unit action" where
  "estimateGas e addresses amounts minReceive =
     (if \<not> hasPublicClient e then succeed ()
      else andThen (ask (\<lambda>h. gasReply e h addresses amounts minReceive)
                      (GasEstimate addresses amounts minReceive))
             (\<lambda>r. case r of
                     Threw m \<Rightarrow> throw (GasEstimationFailed (decodeErrorSignature m))
                   | Returned gas \<Rightarrow> succeed ()))"

definition executeBulkSwap :: "env \<Rightarrow> string list \<Rightarrow> int list \<Rightarrow> int \<Rightarrow> unit action" where
  "executeBulkSwap e addresses amounts minReceive =
     andThen (ask (\<lambda>h. swapReply e h addresses amounts minReceive)
                (BulkSwapSent addresses amounts minReceive))
       (\<lambda>r. case r of
               Threw m \<Rightarrow> throw (SwapFailed (decodeErrorSignature m))
             | Returned u \<Rightarrow> succeed ())"

definition hasHigherToken :: "contracts \<Rightarrow> string list \<Rightarrow> bool" where
  "hasHigherToken c addresses =
     list_ex (\<lambda>addr. toLowerCase addr = toLowerCase (HIGHER_TOKEN c)) addresses"

text \<open>
  The body of \<^verbatim>\<open>handleSwap\<close> from the arrays on: the two consistency checks, the two
  approval passes, the balance check, the quotes, the minimum to receive, the check of
  the target token, the gas estimate and the swap.
\<close>

definition quotesAndSwap :: "env \<Rightarrow> contracts \<Rightarrow> token list \<Rightarrow> string list \<Rightarrow> int list \<Rightarrow> unit action" where
  "quotesAndSwap e c safeTokenData safeTokenAddresses safeTokenAmounts =
     andThen (validateQuotes e (zip safeTokenData safeTokenAmounts))
       (\<lambda>individualQuotes.
     andThen (bulkQuote e safeTokenAddresses safeTokenAmounts)
       (\<lambda>totalQuote.
          let minReceiveWei = minReceiveOf totalQuote
          in if hasHigherToken c safeTokenAddresses then throw CannotSwapHigherToHigher
             else andThen (estimateGas e safeTokenAddresses safeTokenAmounts minReceiveWei)
                    (\<lambda>u. executeBulkSwap e safeTokenAddresses safeTokenAmounts minReceiveWei)))"

definition approvals :: "env \<Rightarrow> app \<Rightarrow> token list \<Rightarrow> int list \<Rightarrow> unit action" where
  "approvals e a safeTokenData safeTokenAmounts =
     andThen (approvalPromises e a (zip safeTokenData safeTokenAmounts))
       (\<lambda>u.
     andThen (logAllowances e safeTokenData)
       (\<lambda>u.
     andThen (collectNeedingApproval e (zip safeTokenData safeTokenAmounts))
       (\<lambda>tokensNeedingApproval. approveSequentially e a tokensNeedingApproval)))"

definition runPlan ::
  "env \<Rightarrow> contracts \<Rightarrow> app \<Rightarrow> token list \<times> string list \<times> int list \<Rightarrow> unit action" where
  "runPlan e c a plan =
     (case plan of
        (safeTokenData, safeTokenAddresses, safeTokenAmounts) \<Rightarrow>
          andThen (fromResult (validateArrayConsistency safeTokenData safeTokenAddresses safeTokenAmounts))
            (\<lambda>u.
          andThen (fromResult (verifyArrayConsistency safeTokenData safeTokenAddresses safeTokenAmounts))
            (\<lambda>u.
          andThen (approvals e a safeTokenData safeTokenAmounts)
            (\<lambda>u.
          andThen (fromResult (checkBalances (zip safeTokenData safeTokenAmounts)))
            (\<lambda>adjustedAmounts.
               quotesAndSwap e c safeTokenData safeTokenAddresses adjustedAmounts)))))"

text \<open>
  \<^verbatim>\<open>handleSwap\<close> returns at once when the wallet is not connected or nothing is selected;
  otherwise every error reaches the outer \<^verbatim>\<open>catch\<close>, which shows it, and a run without
  error ends with the swap submitted.
\<close>

datatype outcome = NotStarted | Failed error | Submitted

definition swapBody :: "env \<Rightarrow> contracts \<Rightarrow> app \<Rightarrow> unit action" where
  "swapBody e c a =
     andThen (if SPLIT_ROUTER c = [] \<or> account a = [] then throw MissingContractOrWallet
              else succeed ())
       (\<lambda>u.
     andThen (fromResult (buildConsistentArrays (selectedTokensData a) (selectedTokens a)))
       (runPlan e c a))"

definition handleSwap :: "env \<Rightarrow> contracts \<Rightarrow> app \<Rightarrow> event list \<Rightarrow> outcome \<times> event list" where
  "handleSwap e c a h =
     (if \<not> isConnected a \<or> selectedTokens a = [] then (NotStarted, [])
      else (case swapBody e c a h of
              (Inl err, ev) \<Rightarrow> (Failed err, ev)
            | (Inr u, ev) \<Rightarrow> (Submitted, ev)))"

subsection \<open>Vocabulary of the properties\<close>

text \<open>An action emits only events of one kind, whatever the events before it.\<close>

definition emitsOnly :: "(event \<Rightarrow> bool) \<Rightarrow> 'a action \<Rightarrow> bool" where
  "emitsOnly P m = (\<forall>h. list_all P (snd (m h)))"


fun isApprovalStep :: "event \<Rightarrow> bool" where
  "isApprovalStep (AllowanceRead a r) = True"
| "isApprovalStep (ApproveSent a v r) = True"
| "isApprovalStep ev = False"

fun isQuoteRead :: "event \<Rightarrow> bool" where
  "isQuoteRead (SwapQuoteRead a v r) = True"
| "isQuoteRead (BulkQuoteRead as vs r) = True"
| "isQuoteRead ev = False"

fun isGasOrSwap :: "event \<Rightarrow> bool" where
  "isGasOrSwap (GasEstimate as vs m r) = True"
| "isGasOrSwap (BulkSwapSent as vs m r) = True"
| "isGasOrSwap ev = False"

text \<open>An approval transaction for the token at address \<open>t\<close>.\<close>

fun isApproveOf :: "string \<Rightarrow> event \<Rightarrow> bool" where
  "isApproveOf t (ApproveSent a v r) = (a = t)"
| "isApproveOf t ev = False"

text \<open>A quote that resolved to zero: a per-token quote, or the total of the bulk quote.\<close>

fun isZeroQuote :: "event \<Rightarrow> bool" where
  "isZeroQuote (SwapQuoteRead a v (Returned q)) = (q = 0)"
| "isZeroQuote (BulkQuoteRead as vs (Returned r)) = (fst r = 0)"
| "isZeroQuote ev = False"

text \<open>
  The errors of a zero quote: \<^verbatim>\<open>Swap amount too small for ...\<close> and
  \<^verbatim>\<open>Swap amounts too small. Total output would be 0.\<close>, inside the message of the
  \<^verbatim>\<open>catch\<close> around the quote.
\<close>

fun isDustTooSmall :: "error \<Rightarrow> bool" where
  "isDustTooSmall (FailedToValidateQuote s (SwapAmountTooSmall s')) = True"
| "isDustTooSmall (FailedToValidateBulkQuote TotalOutputZero) = True"
| "isDustTooSmall err = False"

fun isArrayConsistencyError :: "error \<Rightarrow> bool" where
  "isArrayConsistencyError (LengthMismatch a b c) = True"
| "isArrayConsistencyError (AddressMismatch i) = True"
| "isArrayConsistencyError err = False"

text \<open>Three arrays are aligned: equal lengths, and equal addresses up to letter case.\<close>

definition aligned :: "token list \<Rightarrow> string list \<Rightarrow> int list \<Rightarrow> bool" where
  "aligned tokens addresses amounts =
     (length tokens = length addresses \<and> length addresses = length amounts
      \<and> (\<forall>i < length tokens. toLowerCase (address (tokens ! i)) = toLowerCase (addresses ! i)))"

text \<open>
  An action in which a zero quote ends everything: whenever one of its events is a zero
  quote, it fails with the error of a zero quote and has sent neither a gas estimate nor
  a swap.
\<close>

definition dustGuarded :: "'a action \<Rightarrow> bool" where
  "dustGuarded m =
     (\<forall>h. list_ex isZeroQuote (snd (m h)) \<longrightarrow>
            (\<exists>err. fst (m h) = Inl err \<and> isDustTooSmall err)
            \<and> list_all (\<lambda>ev. \<not> isGasOrSwap ev) (snd (m h)))"


text \<open>An action that sends at most \<open>n\<close> approval transactions for the token at \<open>t\<close>.\<close>

definition approvesAtMost :: "string \<Rightarrow> nat \<Rightarrow> 'a action \<Rightarrow> bool" where
  "approvesAtMost t n m = (\<forall>h. length (filter (isApproveOf t) (snd (m h))) \<le> n)"

subsection \<open>Example runs\<close>

text \<open>
  One token of six decimals with the balance 2000, selected by a connected account; an
  environment on chain 1 in which every call succeeds, every allowance reads zero, the
  per-token quote is 5 and the total quote is 1.
\<close>

definition tokA :: token where
  "tokA = \<lparr>address = ''0xA'', symbol = ''AAA'', decimals = 6, balanceFormatted = ''2000''\<rparr>"

definition cfg0 :: contracts where
  "cfg0 = \<lparr>SPLIT_ROUTER = ''0xR'', HIGHER_TOKEN = ''0xH''\<rparr>"

definition app0 :: app where
  "app0 = \<lparr>isConnected = True, account = ''0xU'', dustTokens = [tokA],
            selectedTokens = [''0xA'']\<rparr>"

definition env0 :: env where
  "env0 = \<lparr>hasPublicClient = True,
            chainIdReply = (\<lambda>h. Returned 1),
            codeReply = (\<lambda>h a. Returned ''0x6080''),
            allowanceReply = (\<lambda>h a. Returned 0),
            approveReply = (\<lambda>h a v. Returned ()),
            quoteReply = (\<lambda>h a v. Returned 5),
            bulkQuoteReply = (\<lambda>h as vs. Returned (1, [1])),
            gasReply = (\<lambda>h as vs m. Returned 21000),
            swapReply = (\<lambda>h as vs m. Returned ())\<rparr>"

text \<open>The same on Base, with the allowance already granted and a total quote of 1000000.\<close>

definition env1 :: env where
  "env1 = \<lparr>hasPublicClient = True,
            chainIdReply = (\<lambda>h. Returned 8453),
            codeReply = (\<lambda>h a. Returned ''0x6080''),
            allowanceReply = (\<lambda>h a. Returned 3000000000),
            approveReply = (\<lambda>h a v. Returned ()),
            quoteReply = (\<lambda>h a v. Returned 1000000),
            bulkQuoteReply = (\<lambda>h as vs. Returned (1000000, [1000000])),
            gasReply = (\<lambda>h as vs m. Returned 21000),
            swapReply = (\<lambda>h as vs m. Returned ())\<rparr>"

text \<open>An environment whose per-token quote is zero.\<close>

definition env2 :: env where
  "env2 = \<lparr>hasPublicClient = True,
            chainIdReply = (\<lambda>h. Returned 8453),
            codeReply = (\<lambda>h a. Returned ''0x6080''),
            allowanceReply = (\<lambda>h a. Returned 3000000000),
            approveReply = (\<lambda>h a v. Returned ()),
            quoteReply = (\<lambda>h a v. Returned 0),
            bulkQuoteReply = (\<lambda>h as vs. Returned (1000000, [1000000])),
            gasReply = (\<lambda>h as vs m. Returned 21000),
            swapReply = (\<lambda>h as vs m. Returned ())\<rparr>"


definition tokInf :: token where
  "tokInf = \<lparr>address = ''0xC'', symbol = ''CCC'', decimals = 18,
              balanceFormatted = ''Infinity''\<rparr>"

definition tokH :: token where
  "tokH = \<lparr>address = ''0xh'', symbol = ''HIGHER'', decimals = 6, balanceFormatted = ''2000''\<rparr>"

definition appH :: app where
  "appH = \<lparr>isConnected = True, account = ''0xU'', dustTokens = [tokA, tokH],
            selectedTokens = [''0xA'', ''0xh'']\<rparr>"

section \<open>Properties\<close>

subsection \<open>Actions and their events\<close>

lemma andThen_succeed [simp]: "andThen (succeed x) f h = f x h"
  by (simp add: andThen_def succeed_def split: prod.splits)

lemma andThen_throw [simp]: "andThen (throw err) f h = (Inl err, [])"
  by (simp add: andThen_def throw_def)

lemma andThen_fromResult_Inr [simp]: "andThen (fromResult (Inr x)) f h = f x h"
  by (simp add: andThen_def fromResult_def split: prod.splits)

lemma andThen_fromResult_Inl [simp]: "andThen (fromResult (Inl err)) f h = (Inl err, [])"
  by (simp add: andThen_def fromResult_def)

lemma snd_andThen:
  "snd (andThen m f h) =
     snd (m h) @ (case fst (m h) of Inl err \<Rightarrow> [] | Inr x \<Rightarrow> snd (f x (h @ snd (m h))))"
  by (simp add: andThen_def split: prod.splits sum.splits)

lemma fst_andThen:
  "fst (andThen m f h) =
     (case fst (m h) of Inl err \<Rightarrow> Inl err | Inr x \<Rightarrow> fst (f x (h @ snd (m h))))"
  by (simp add: andThen_def split: prod.splits sum.splits)

lemma snd_rethrow [simp]: "snd (rethrow w m h) = snd (m h)"
  by (simp add: rethrow_def split: prod.splits sum.splits)

lemma fst_rethrow:
  "fst (rethrow w m h) = (case fst (m h) of Inl err \<Rightarrow> Inl (w err) | Inr x \<Rightarrow> Inr x)"
  by (simp add: rethrow_def split: prod.splits sum.splits)

lemma emitsOnly_succeed [simp]: "emitsOnly P (succeed x)"
  by (simp add: emitsOnly_def succeed_def)

lemma emitsOnly_throw [simp]: "emitsOnly P (throw err)"
  by (simp add: emitsOnly_def throw_def)

lemma emitsOnly_fromResult [simp]: "emitsOnly P (fromResult r)"
  by (simp add: emitsOnly_def fromResult_def)

lemma emitsOnly_ask: "(\<And>r. P (mk r)) \<Longrightarrow> emitsOnly P (ask q mk)"
  by (simp add: emitsOnly_def ask_def)

lemma emitsOnly_andThen:
  "emitsOnly P m \<Longrightarrow> (\<And>x. emitsOnly P (f x)) \<Longrightarrow> emitsOnly P (andThen m f)"
  unfolding emitsOnly_def by (auto simp: snd_andThen split: sum.splits)

lemma emitsOnly_rethrow: "emitsOnly P m \<Longrightarrow> emitsOnly P (rethrow w m)"
  unfolding emitsOnly_def by simp

lemma emitsOnly_if:
  "(b \<Longrightarrow> emitsOnly P m) \<Longrightarrow> (\<not> b \<Longrightarrow> emitsOnly P n) \<Longrightarrow> emitsOnly P (if b then m else n)"
  by simp

lemma emitsOnly_mono: "emitsOnly P m \<Longrightarrow> (\<And>ev. P ev \<Longrightarrow> Q ev) \<Longrightarrow> emitsOnly Q m"
  unfolding emitsOnly_def by (auto simp: list_all_iff)

lemmas emitsOnly_intros =
  emitsOnly_andThen emitsOnly_rethrow emitsOnly_ask emitsOnly_if

lemma checkAllowance_emits: "emitsOnly isApprovalStep (checkAllowance e t)"
  unfolding checkAllowance_def by (auto intro!: emitsOnly_intros)

lemma approveToken_emits: "emitsOnly isApprovalStep (approveToken e a t v)"
  unfolding approveToken_def Let_def
  by (auto intro!: emitsOnly_intros split: option.splits reply.splits)

lemma approvalPromises_emits: "emitsOnly isApprovalStep (approvalPromises e a xs)"
  by (induction xs) (auto intro!: emitsOnly_intros checkAllowance_emits approveToken_emits)

lemma logAllowances_emits: "emitsOnly isApprovalStep (logAllowances e xs)"
  by (induction xs) (auto intro!: emitsOnly_intros checkAllowance_emits)

lemma collectNeedingApproval_emits: "emitsOnly isApprovalStep (collectNeedingApproval e xs)"
  by (induction xs) (auto intro!: emitsOnly_intros checkAllowance_emits)

lemma approveSequentially_emits: "emitsOnly isApprovalStep (approveSequentially e a xs)"
  by (induction xs) (auto intro!: emitsOnly_intros approveToken_emits)

lemma approvals_emits: "emitsOnly isApprovalStep (approvals e a ts ams)"
  unfolding approvals_def
  by (intro emitsOnly_andThen approvalPromises_emits logAllowances_emits
      collectNeedingApproval_emits approveSequentially_emits)

lemma quoteOne_emits: "emitsOnly isQuoteRead (quoteOne e tk v)"
  unfolding quoteOne_def by (auto intro!: emitsOnly_intros split: reply.splits)

lemma validateQuotes_emits: "emitsOnly isQuoteRead (validateQuotes e xs)"
  by (induction xs) (auto intro!: emitsOnly_intros quoteOne_emits)

lemma bulkQuote_emits: "emitsOnly isQuoteRead (bulkQuote e as vs)"
  unfolding bulkQuote_def Let_def by (auto intro!: emitsOnly_intros split: reply.splits)

subsection \<open>The minimum to receive\<close>

lemma sdiv_nonneg: "0 \<le> a \<Longrightarrow> 0 < b \<Longrightarrow> a sdiv b = a div (b::int)"
  by (simp add: signed_divide_int_def sgn_if)






subsection \<open>The plan and its consistency checks\<close>

lemma buildEntry_address: "buildEntry toks addr = Inr (tk, v) \<Longrightarrow> address tk = addr"
  by (auto simp: buildEntry_def Let_def find_Some_iff split: option.splits if_splits sum.splits)

lemma build_shape:
  "buildConsistentArrays toks sel = Inr (ts, as, ams) \<Longrightarrow>
     as = sel \<and> length ts = length sel \<and> length ams = length sel \<and> map address ts = sel"
  by (induction sel arbitrary: ts as ams)
     (auto split: sum.splits prod.splits dest: buildEntry_address)

lemma firstMisaligned_None:
  "length ts = length as \<Longrightarrow>
     (firstMisaligned mk i ts as = None) =
     (\<forall>j < length ts. toLowerCase (address (ts ! j)) = toLowerCase (as ! j))"
proof (induction mk i ts as rule: firstMisaligned.induct)
  case (3 mk i tk tks addr addrs)
  then show ?case by (auto simp: less_Suc_eq_0_disj)
qed simp_all

lemma firstMisaligned_Some:
  "length ts = length as \<Longrightarrow> firstMisaligned mk i ts as = Some err \<Longrightarrow> \<exists>j. err = mk j"
  by (induction mk i ts as rule: firstMisaligned.induct) (auto split: if_splits)

lemma validate_iff: "(validateArrayConsistency ts as ams = Inr ()) = aligned ts as ams"
proof (cases "length ts = length as \<and> length as = length ams")
  case True
  then have "(firstMisaligned AddressMismatch 0 ts as = None) =
      (\<forall>j < length ts. toLowerCase (address (ts ! j)) = toLowerCase (as ! j))"
    by (simp add: firstMisaligned_None)
  with True show ?thesis
    by (auto simp: validateArrayConsistency_def aligned_def split: option.splits)
next
  case False
  then show ?thesis by (auto simp: validateArrayConsistency_def aligned_def)
qed

lemma validate_error:
  "isArrayConsistencyError err" if "validateArrayConsistency ts as ams = Inl err"
proof (cases "length ts \<noteq> length as \<or> length as \<noteq> length ams")
  case True
  then show ?thesis using that by (auto simp: validateArrayConsistency_def)
next
  case False
  then have l: "length ts = length as" by simp
  from False that have "firstMisaligned AddressMismatch 0 ts as = Some err"
    by (auto simp: validateArrayConsistency_def split: option.splits)
  from firstMisaligned_Some[OF l this] show ?thesis by auto
qed

text \<open>
  C4. When \<^verbatim>\<open>buildConsistentArrays\<close> returns, its three arrays have the same length, the
  addresses are the selection, and at every index the address of the token record is the
  selected address (the same string, hence the same up to letter case). Arrays that are
  not aligned, by their lengths or by an address, make the run end in
  \<^verbatim>\<open>validateArrayConsistency\<close> with a length or address mismatch error, before any event:
  no read and no transaction has been issued.
\<close>

theorem plan_arrays_aligned:
  "(buildConsistentArrays toks sel = Inr (ts, as, ams) \<longrightarrow>
      length ts = length as \<and> length as = length ams \<and> as = sel
      \<and> (\<forall>i < length ts. address (ts ! i) = sel ! i
                          \<and> toLowerCase (address (ts ! i)) = toLowerCase (sel ! i)))
   \<and> (\<not> aligned ts' as' ams' \<longrightarrow>
        (\<exists>err. runPlan e c a (ts', as', ams') h = (Inl err, []) \<and> isArrayConsistencyError err))"
proof (intro conjI impI)
  assume b: "buildConsistentArrays toks sel = Inr (ts, as, ams)"
  from build_shape[OF b] have s: "as = sel" "length ts = length sel" "length ams = length sel"
    "map address ts = sel" by auto
  show "length ts = length as" "length as = length ams" "as = sel" using s by auto
  show "\<forall>i < length ts. address (ts ! i) = sel ! i
          \<and> toLowerCase (address (ts ! i)) = toLowerCase (sel ! i)"
    using s(4) by (metis nth_map)
next
  assume n: "\<not> aligned ts' as' ams'"
  then obtain err where v: "validateArrayConsistency ts' as' ams' = Inl err"
    using validate_iff[of ts' as' ams'] by (cases "validateArrayConsistency ts' as' ams'") auto
  then show "\<exists>err. runPlan e c a (ts', as', ams') h = (Inl err, []) \<and> isArrayConsistencyError err"
    using validate_error[OF v] by (simp add: runPlan_def)
qed

lemma tokA_plan: "buildConsistentArrays [tokA] [''0xA''] = Inr ([tokA], [''0xA''], [1999800000])"
  by code_simp

theorem plan_arrays_aligned_witness:
  "buildConsistentArrays [tokA] [''0xA''] = Inr ([tokA], [''0xA''], [1999800000])
   \<and> length [tokA] = length [''0xA''] \<and> length [''0xA''] = length [1999800000 :: int]
   \<and> address ([tokA] ! 0) = [''0xA''] ! 0
   \<and> toLowerCase (address ([tokA] ! 0)) = toLowerCase ([''0xA''] ! 0)
   \<and> \<not> aligned [tokA] [''0xB''] [1999800000]
   \<and> (\<exists>err. runPlan env0 cfg0 app0 ([tokA], [''0xB''], [1999800000]) [] = (Inl err, [])
            \<and> isArrayConsistencyError err)"
proof -
  have n: "\<not> aligned [tokA] [''0xB''] [1999800000]"
    by (simp add: aligned_def tokA_def toLowerCase_def lowerChar_def)
  show ?thesis
    using plan_arrays_aligned [of "[tokA]" "[''0xA'']" "[tokA]" "[''0xA'']" "[1999800000]"
        "[tokA]" "[''0xB'']" "[1999800000]" env0 cfg0 app0 "[]"] tokA_plan n
    by simp
qed

subsection \<open>approveToken\<close>

lemma not_leZero_not_isZero: "\<not> leZero x \<Longrightarrow> \<not> isZero x"
  by (cases x) auto

text \<open>
  C3. The amount that \<^verbatim>\<open>approveToken\<close> receives has no influence: two calls that differ
  only in it give the same result and the same events. For a token of \<^verbatim>\<open>dustTokens\<close>
  whose parsed balance is positive and whose balance \<^verbatim>\<open>parseUnits\<close> turns into
  \<open>balanceWei\<close>, with an account connected, the first event is the approval of
  \<open>balanceWei * 1001 / 1000\<close>.
\<close>

theorem approveToken_ignores_amount:
  "approveToken e a t amount1 h = approveToken e a t amount2 h
   \<and> (find (\<lambda>tk. address tk = t) (dustTokens a) = Some tk
        \<and> balanceFormatted tk \<noteq> [] \<and> \<not> isNaN (parseFloat (balanceFormatted tk))
        \<and> \<not> leZero (parseFloat (balanceFormatted tk))
        \<and> parseUnits (balanceFormatted tk) (decimals tk) = Inr balanceWei
        \<and> account a \<noteq> []
      \<longrightarrow> (\<exists>rest. snd (approveToken e a t amount1 h) =
             ApproveSent t ((balanceWei * 1001) sdiv 1000)
               (approveReply e h t ((balanceWei * 1001) sdiv 1000)) # rest))"
proof (intro conjI impI)
  show "approveToken e a t amount1 h = approveToken e a t amount2 h"
    by (simp add: approveToken_def)
next
  assume "find (\<lambda>tk. address tk = t) (dustTokens a) = Some tk
        \<and> balanceFormatted tk \<noteq> [] \<and> \<not> isNaN (parseFloat (balanceFormatted tk))
        \<and> \<not> leZero (parseFloat (balanceFormatted tk))
        \<and> parseUnits (balanceFormatted tk) (decimals tk) = Inr balanceWei
        \<and> account a \<noteq> []"
  then show "\<exists>rest. snd (approveToken e a t amount1 h) =
             ApproveSent t ((balanceWei * 1001) sdiv 1000)
               (approveReply e h t ((balanceWei * 1001) sdiv 1000)) # rest"
    by (simp add: approveToken_def balanceOrZero_def bufferAmountOf_def snd_andThen ask_def
        Let_def not_leZero_not_isZero)
qed

lemma tokA_balance:
  "parseFloat ''2000'' = Finite 2000" "parseUnits ''2000'' 6 = Inr 2000000000"
  by code_simp+

theorem approveToken_ignores_amount_witness:
  "find (\<lambda>tk. address tk = ''0xA'') (dustTokens app0) = Some tokA
   \<and> balanceFormatted tokA \<noteq> [] \<and> \<not> isNaN (parseFloat (balanceFormatted tokA))
   \<and> \<not> leZero (parseFloat (balanceFormatted tokA))
   \<and> parseUnits (balanceFormatted tokA) (decimals tokA) = Inr 2000000000
   \<and> account app0 \<noteq> []
   \<and> approveToken env0 app0 ''0xA'' 1999800000 [] = approveToken env0 app0 ''0xA'' 7 []
   \<and> (\<exists>rest. snd (approveToken env0 app0 ''0xA'' 1999800000 []) =
        ApproveSent ''0xA'' 2002000000 (Returned ()) # rest)"
proof -
  have hyp: "find (\<lambda>tk. address tk = ''0xA'') (dustTokens app0) = Some tokA
     \<and> balanceFormatted tokA \<noteq> [] \<and> \<not> isNaN (parseFloat (balanceFormatted tokA))
     \<and> \<not> leZero (parseFloat (balanceFormatted tokA))
     \<and> parseUnits (balanceFormatted tokA) (decimals tokA) = Inr 2000000000
     \<and> account app0 \<noteq> []"
    by (simp add: app0_def tokA_def tokA_balance)
  note t = approveToken_ignores_amount [of env0 app0 "''0xA''" 1999800000 "[]" 7 tokA 2000000000]
  from t have eq: "approveToken env0 app0 ''0xA'' 1999800000 [] = approveToken env0 app0 ''0xA'' 7 []"
    by (rule conjunct1)
  from t hyp have "\<exists>rest. snd (approveToken env0 app0 ''0xA'' 1999800000 []) =
        ApproveSent ''0xA'' ((2000000000 * 1001) sdiv 1000)
          (approveReply env0 [] ''0xA'' ((2000000000 * 1001) sdiv 1000)) # rest"
    by blast
  then have ex: "\<exists>rest. snd (approveToken env0 app0 ''0xA'' 1999800000 []) =
        ApproveSent ''0xA'' 2002000000 (Returned ()) # rest"
    by (simp add: sdiv_nonneg env0_def)
  show ?thesis using hyp eq ex by blast
qed

subsection \<open>The target token\<close>

lemma approvalStep_noGasOrSwap: "isApprovalStep ev \<Longrightarrow> \<not> isGasOrSwap ev"
  by (cases ev) auto

lemma quoteRead_noGasOrSwap: "isQuoteRead ev \<Longrightarrow> \<not> isGasOrSwap ev"
  by (cases ev) auto

lemma approvalStep_noZeroQuote: "isApprovalStep ev \<Longrightarrow> \<not> isZeroQuote ev"
  by (cases ev) auto

lemma quotesAndSwap_higher_emits:
  "hasHigherToken c as \<Longrightarrow> emitsOnly (\<lambda>ev. \<not> isGasOrSwap ev) (quotesAndSwap e c ts as ams)"
  unfolding quotesAndSwap_def Let_def
  by (auto intro!: emitsOnly_andThen
      emitsOnly_mono[OF validateQuotes_emits quoteRead_noGasOrSwap]
      emitsOnly_mono[OF bulkQuote_emits quoteRead_noGasOrSwap])

lemma quotesAndSwap_higher_fails:
  "hasHigherToken c as \<Longrightarrow> isl (fst (quotesAndSwap e c ts as ams h))"
  unfolding quotesAndSwap_def Let_def
  by (simp add: fst_andThen throw_def split: sum.splits)

lemma runPlan_higher_emits:
  "hasHigherToken c as \<Longrightarrow> emitsOnly (\<lambda>ev. \<not> isGasOrSwap ev) (runPlan e c a (ts, as, ams))"
  unfolding runPlan_def prod.case
  by (intro emitsOnly_andThen emitsOnly_fromResult quotesAndSwap_higher_emits
      emitsOnly_mono[OF approvals_emits approvalStep_noGasOrSwap])

lemma runPlan_higher_fails:
  "hasHigherToken c as \<Longrightarrow> isl (fst (runPlan e c a (ts, as, ams) h))"
  unfolding runPlan_def prod.case
  by (simp add: fst_andThen quotesAndSwap_higher_fails split: sum.splits)

lemma swapBody_higher:
  assumes "hasHigherToken c (selectedTokens a)"
  shows "isl (fst (swapBody e c a h))
         \<and> list_all (\<lambda>ev. \<not> isGasOrSwap ev) (snd (swapBody e c a h))"
proof (cases "SPLIT_ROUTER c = [] \<or> account a = []")
  case True
  then show ?thesis by (auto simp: swapBody_def)
next
  case False
  show ?thesis
  proof (cases "buildConsistentArrays (selectedTokensData a) (selectedTokens a)")
    case (Inl err)
    with False show ?thesis by (simp add: swapBody_def)
  next
    case (Inr plan)
    obtain ts as ams where p: "plan = (ts, as, ams)" by (cases plan) auto
    with Inr build_shape have "as = selectedTokens a" by blast
    with assms have hh: "hasHigherToken c as" by simp
    from runPlan_higher_emits[OF hh] runPlan_higher_fails[OF hh]
    show ?thesis using False Inr p by (simp add: swapBody_def emitsOnly_def)
  qed
qed

text \<open>
  C10. When the selection contains the address of the target token, compared after
  \<^verbatim>\<open>toLowerCase\<close>, a run never sends a gas estimate or the swap and never ends as
  submitted; a run of a connected account ends with an error. (Without a connection
  \<^verbatim>\<open>handleSwap\<close> returns before it starts.)
\<close>

theorem higher_token_aborts:
  "hasHigherToken c (selectedTokens a) \<Longrightarrow>
     fst (handleSwap e c a h) \<noteq> Submitted
     \<and> (isConnected a \<longrightarrow> (\<exists>err. fst (handleSwap e c a h) = Failed err))
     \<and> list_all (\<lambda>ev. \<not> isGasOrSwap ev) (snd (handleSwap e c a h))"
proof -
  assume hh: "hasHigherToken c (selectedTokens a)"
  then have ne: "selectedTokens a \<noteq> []" by (auto simp: hasHigherToken_def)
  from swapBody_higher[OF hh, of e h] show ?thesis
    using ne by (cases "swapBody e c a h") (auto simp: handleSwap_def split: sum.splits)
qed

lemma higher_selected: "hasHigherToken cfg0 (selectedTokens appH)"
  by code_simp

lemma runH:
  "handleSwap env1 cfg0 appH [] =
     (Failed CannotSwapHigherToHigher,
      [AllowanceRead ''0xA'' (Returned 3000000000),
       AllowanceRead ''0xh'' (Returned 3000000000),
       AllowanceRead ''0xA'' (Returned 3000000000),
       AllowanceRead ''0xh'' (Returned 3000000000),
       AllowanceRead ''0xA'' (Returned 3000000000),
       AllowanceRead ''0xh'' (Returned 3000000000),
       SwapQuoteRead ''0xA'' 1999800000 (Returned 1000000),
       SwapQuoteRead ''0xh'' 1999800000 (Returned 1000000),
       BulkQuoteRead [''0xA'', ''0xh''] [1999800000, 1999800000]
         (Returned (1000000, [1000000]))])"
  by code_simp

theorem higher_token_aborts_witness:
  "hasHigherToken cfg0 (selectedTokens appH)
   \<and> isConnected appH
   \<and> fst (handleSwap env1 cfg0 appH []) = Failed CannotSwapHigherToHigher
   \<and> fst (handleSwap env1 cfg0 appH []) \<noteq> Submitted
   \<and> list_all (\<lambda>ev. \<not> isGasOrSwap ev) (snd (handleSwap env1 cfg0 appH []))"
proof -
  have c: "isConnected appH" by (simp add: appH_def)
  have r: "fst (handleSwap env1 cfg0 appH []) = Failed CannotSwapHigherToHigher"
    by (simp add: runH)
  from higher_token_aborts [OF higher_selected, of env1 "[]"] higher_selected c r
  show ?thesis by blast
qed

subsection \<open>Zero quotes\<close>

lemma dustGuarded_noZero: "emitsOnly (\<lambda>ev. \<not> isZeroQuote ev) m \<Longrightarrow> dustGuarded m"
  unfolding dustGuarded_def emitsOnly_def by (auto simp: list_all_iff list_ex_iff)

lemma dustGuarded_andThen:
  assumes "dustGuarded m" "emitsOnly (\<lambda>ev. \<not> isGasOrSwap ev) m" "\<And>x. dustGuarded (f x)"
  shows "dustGuarded (andThen m f)"
  unfolding dustGuarded_def
proof (intro allI impI)
  fix h
  assume z: "list_ex isZeroQuote (snd (andThen m f h))"
  from assms(2) have q: "list_all (\<lambda>ev. \<not> isGasOrSwap ev) (snd (m h))"
    by (simp add: emitsOnly_def)
  show "(\<exists>err. fst (andThen m f h) = Inl err \<and> isDustTooSmall err)
        \<and> list_all (\<lambda>ev. \<not> isGasOrSwap ev) (snd (andThen m f h))"
  proof (cases "fst (m h)")
    case (Inl err)
    with z have "list_ex isZeroQuote (snd (m h))" by (simp add: snd_andThen)
    with assms(1) Inl have "isDustTooSmall err" by (auto simp: dustGuarded_def)
    with Inl q show ?thesis by (simp add: fst_andThen snd_andThen)
  next
    case (Inr x)
    show ?thesis
    proof (cases "list_ex isZeroQuote (snd (m h))")
      case True
      with assms(1) Inr show ?thesis by (auto simp: dustGuarded_def)
    next
      case False
      with z Inr have "list_ex isZeroQuote (snd (f x (h @ snd (m h))))"
        by (simp add: snd_andThen)
      with assms(3)[of x] have "(\<exists>err. fst (f x (h @ snd (m h))) = Inl err \<and> isDustTooSmall err)
          \<and> list_all (\<lambda>ev. \<not> isGasOrSwap ev) (snd (f x (h @ snd (m h))))"
        by (simp add: dustGuarded_def)
      with Inr q show ?thesis by (simp add: fst_andThen snd_andThen)
    qed
  qed
qed

lemma dustGuarded_quoteOne: "dustGuarded (quoteOne e tk v)"
  unfolding dustGuarded_def quoteOne_def
  by (auto simp: fst_rethrow fst_andThen snd_andThen ask_def throw_def succeed_def
      split: reply.splits sum.splits)

lemma dustGuarded_validateQuotes: "dustGuarded (validateQuotes e xs)"
proof (induction xs)
  case Nil
  show ?case by (simp add: dustGuarded_noZero)
next
  case (Cons x xs)
  obtain tk v where x: "x = (tk, v)" by (cases x)
  have q: "emitsOnly (\<lambda>ev. \<not> isGasOrSwap ev) (validateQuotes e xs)"
    by (rule emitsOnly_mono[OF validateQuotes_emits quoteRead_noGasOrSwap])
  have s: "dustGuarded (succeed (q # qs))" for q :: nat and qs
    by (rule dustGuarded_noZero) simp
  have r: "dustGuarded (andThen (validateQuotes e xs) (\<lambda>qs. succeed (q # qs)))" for q :: nat
    by (rule dustGuarded_andThen[OF Cons.IH q s])
  have o: "emitsOnly (\<lambda>ev. \<not> isGasOrSwap ev) (quoteOne e tk v)"
    by (rule emitsOnly_mono[OF quoteOne_emits quoteRead_noGasOrSwap])
  show ?case
    unfolding x validateQuotes.simps
    by (rule dustGuarded_andThen[OF dustGuarded_quoteOne o r])
qed

lemma dustGuarded_bulkQuote: "dustGuarded (bulkQuote e as vs)"
  unfolding dustGuarded_def bulkQuote_def Let_def
  by (auto simp: fst_rethrow fst_andThen snd_andThen ask_def throw_def succeed_def
      split: reply.splits sum.splits)

lemma gasOrSwap_noZeroQuote: "isGasOrSwap ev \<Longrightarrow> \<not> isZeroQuote ev"
  by (cases ev) auto

lemma estimateGas_emits: "emitsOnly isGasOrSwap (estimateGas e as vs m)"
  unfolding estimateGas_def by (auto intro!: emitsOnly_intros split: reply.splits)

lemma executeBulkSwap_emits: "emitsOnly isGasOrSwap (executeBulkSwap e as vs m)"
  unfolding executeBulkSwap_def by (auto intro!: emitsOnly_intros split: reply.splits)

lemma dustGuarded_quotesAndSwap: "dustGuarded (quotesAndSwap e c ts as ams)"
  unfolding quotesAndSwap_def Let_def
  by (intro dustGuarded_andThen dustGuarded_validateQuotes dustGuarded_bulkQuote
      emitsOnly_mono[OF validateQuotes_emits quoteRead_noGasOrSwap]
      emitsOnly_mono[OF bulkQuote_emits quoteRead_noGasOrSwap])
     (auto intro!: dustGuarded_noZero emitsOnly_andThen
      emitsOnly_mono[OF estimateGas_emits gasOrSwap_noZeroQuote]
      emitsOnly_mono[OF executeBulkSwap_emits gasOrSwap_noZeroQuote])

lemma dustGuarded_runPlan: "dustGuarded (runPlan e c a plan)"
proof -
  obtain ts as ams where p: "plan = (ts, as, ams)" by (cases plan) auto
  show ?thesis
    unfolding p runPlan_def prod.case
    by (intro dustGuarded_andThen dustGuarded_quotesAndSwap emitsOnly_fromResult
        dustGuarded_noZero emitsOnly_mono[OF approvals_emits approvalStep_noZeroQuote]
        emitsOnly_mono[OF approvals_emits approvalStep_noGasOrSwap])
qed

lemma dustGuarded_swapBody: "dustGuarded (swapBody e c a)"
  unfolding swapBody_def
  by (intro dustGuarded_andThen dustGuarded_runPlan dustGuarded_noZero)
     (auto intro!: emitsOnly_if)

text \<open>
  C8. When a per-token quote or the total of the bulk quote of a run is zero, the run
  fails with the error of that zero quote (\<^verbatim>\<open>Swap amount too small\<close> or
  \<^verbatim>\<open>Swap amounts too small\<close>, wrapped by the \<^verbatim>\<open>catch\<close> of the quote), and neither the gas
  estimate nor \<^verbatim>\<open>executeBulkSwap\<close> is sent.
\<close>

theorem zero_quote_aborts:
  "list_ex isZeroQuote (snd (handleSwap e c a h)) \<Longrightarrow>
     (\<exists>err. fst (handleSwap e c a h) = Failed err \<and> isDustTooSmall err)
     \<and> list_all (\<lambda>ev. \<not> isGasOrSwap ev) (snd (handleSwap e c a h))"
proof -
  assume z: "list_ex isZeroQuote (snd (handleSwap e c a h))"
  have s: "\<not> (\<not> isConnected a \<or> selectedTokens a = [])"
  proof
    assume "\<not> isConnected a \<or> selectedTokens a = []"
    then have "snd (handleSwap e c a h) = []" by (auto simp: handleSwap_def)
    with z show False by simp
  qed
  then have hs: "snd (handleSwap e c a h) = snd (swapBody e c a h)"
    by (cases "swapBody e c a h") (auto simp: handleSwap_def split: sum.splits)
  with z dustGuarded_swapBody[of e c a]
  have "(\<exists>err. fst (swapBody e c a h) = Inl err \<and> isDustTooSmall err)
        \<and> list_all (\<lambda>ev. \<not> isGasOrSwap ev) (snd (swapBody e c a h))"
    by (simp add: dustGuarded_def)
  then show ?thesis
    using s by (cases "swapBody e c a h") (auto simp: handleSwap_def split: sum.splits)
qed

lemma run2:
  "handleSwap env2 cfg0 app0 [] =
     (Failed (FailedToValidateQuote ''AAA'' (SwapAmountTooSmall ''AAA'')),
      [AllowanceRead ''0xA'' (Returned 3000000000),
       AllowanceRead ''0xA'' (Returned 3000000000),
       AllowanceRead ''0xA'' (Returned 3000000000),
       SwapQuoteRead ''0xA'' 1999800000 (Returned 0)])"
  by code_simp

theorem zero_quote_aborts_witness:
  "list_ex isZeroQuote (snd (handleSwap env2 cfg0 app0 []))
   \<and> (\<exists>err. fst (handleSwap env2 cfg0 app0 []) = Failed err \<and> isDustTooSmall err)
   \<and> list_all (\<lambda>ev. \<not> isGasOrSwap ev) (snd (handleSwap env2 cfg0 app0 []))"
proof -
  have z: "list_ex isZeroQuote (snd (handleSwap env2 cfg0 app0 []))"
    by (simp add: run2)
  from zero_quote_aborts [OF z] z show ?thesis by blast
qed

subsection \<open>The network check\<close>











subsection \<open>Balances that are not finite\<close>

text \<open>
  C9 at a balance that reads \<^verbatim>\<open>Infinity\<close>: \<^verbatim>\<open>parseFloat\<close> returns positive infinity,
  which is neither NaN nor at most zero, so the guard of \<^verbatim>\<open>buildConsistentArrays\<close> lets
  it pass, and the construction ends in \<^verbatim>\<open>parseUnits\<close> with its own error instead of
  the invalid balance error.
\<close>

theorem infinite_balance_passes_guard:
  "parseFloat (balanceOrZero tokInf) = PosInfinity
   \<and> \<not> isNaN (parseFloat (balanceOrZero tokInf))
   \<and> \<not> leZero (parseFloat (balanceOrZero tokInf))
   \<and> buildConsistentArrays [tokInf] [''0xC''] = Inl (InvalidDecimalNumberError ''Infinity'')
   \<and> buildConsistentArrays [tokInf] [''0xC''] \<noteq> Inl (InvalidBalance ''CCC'' ''Infinity'')"
  by code_simp

subsection \<open>Rounding to double precision\<close>

lemma pow2_powi: "pow2 k = 2 powi k"
  by (simp add: pow2_def power_int_def power_one_over inverse_eq_divide)

lemma pow2_pos [simp]: "0 < pow2 k"
  by (simp add: pow2_powi)











subsection \<open>The guard buffer\<close>
















subsection \<open>The sign of a balance\<close>






lemma pow2_nonneg [simp]: "0 \<le> pow2 k"
  by (rule less_imp_le) (rule pow2_pos)






subsection \<open>The amounts of the plan\<close>










subsection \<open>The approvals of a run\<close>























subsection \<open>The number of approvals of a token\<close>








lemma atMost_succeed [simp]: "approvesAtMost t n (succeed x)"
  by (simp add: approvesAtMost_def succeed_def)


lemma atMost_throw [simp]: "approvesAtMost t n (throw x)"
  by (simp add: approvesAtMost_def throw_def)


















end
